theory Spec2Isabelle
  imports Complex_Main
begin

section \<open>Data model (server/models/Issue.js)\<close>

text \<open>
  An ObjectId is compared in the source through \<open>toString()\<close>, its 24 digit hex form, so
  an id is modelled as that string. A \<open>Date\<close> is its number of milliseconds since the
  epoch. A JavaScript \<open>Number\<close> holding a coordinate is modelled as a real number: the
  model is exact up to the rounding of IEEE doubles, and the one place where a rounding
  decides the result, the cosine of the geolocation filter, takes the double of the code as
  a parameter.
\<close>

type_synonym objectId = string
type_synonym time = int

datatype category =
  RoadsTransportation | PublicSafety | Environment | Utilities | ParksRecreation
  | Housing | Education | Healthcare | Other

datatype priority = Low | Medium | High | Critical

datatype status = Open | InProgress | UnderReview | Resolved | Closed | Rejected

record vote =
  user :: objectId
  votedAt :: time

record voteLists =
  upvotes :: "vote list"
  downvotes :: "vote list"

record coordinates =
  lat :: real
  lng :: real

record location =
  address :: string
  coordinates :: coordinates

record comment =
  c_user :: objectId
  content :: string
  isOfficial :: bool
  c_createdAt :: time

text \<open>
  The fields of \<open>issueSchema\<close> that the routes below read or write. \<open>issue_id\<close> is
  \<open>_id\<close>; an optional field that is absent (\<open>undefined\<close>) or \<open>null\<close> is \<open>None\<close>.
  \<open>images\<close>, \<open>attachments\<close>, \<open>duplicateOf\<close>, \<open>relatedIssues\<close> and
  \<open>estimatedResolutionDate\<close> are written by no route and left out. There is no
  \<open>voteCount\<close> field: the schema declares it as a virtual.
\<close>

record issue =
  issue_id :: objectId
  title :: string
  description :: string
  category :: category
  priority :: priority
  status :: status
  reporter :: objectId
  assignedTo :: "objectId option"
  location :: location
  votes :: voteLists
  comments :: "comment list"
  tags :: "string list"
  actualResolutionDate :: "time option"
  resolutionNotes :: "string option"
  isPublic :: bool
  isAnonymous :: bool
  viewCount :: nat
  lastActivity :: time
  createdAt :: time

subsection \<open>The store\<close>

text \<open>
  The collection of issues in insertion order, with the connection state of mongoose
  (\<open>readyState\<close> is 1 when connected). \<open>faulty\<close> stands for every other reason an
  operation on the model rejects; an operation succeeds when the store is \<open>available\<close>.
\<close>

record store =
  readyState :: nat
  faulty :: bool
  docs :: "issue list"

datatype error = StoreError

definition available :: "store \<Rightarrow> bool" where
  "available s = (readyState s = 1 \<and> \<not> faulty s)"

fun replaceDoc :: "issue \<Rightarrow> issue list \<Rightarrow> issue list" where
  "replaceDoc i [] = [i]"
| "replaceDoc i (d # ds) = (if issue_id d = issue_id i then i # ds else d # replaceDoc i ds)"

definition save :: "store \<Rightarrow> issue \<Rightarrow> error + store" where
  "save s i = (if available s then Inr (s\<lparr>docs := replaceDoc i (docs s)\<rparr>) else Inl StoreError)"

definition findById :: "store \<Rightarrow> objectId \<Rightarrow> error + issue option" where
  "findById s k = (if available s then Inr (find (\<lambda>d. issue_id d = k) (docs s)) else Inl StoreError)"

section \<open>Votes (Issue.js, voteCount, hasUserVoted, addVote)\<close>

definition voteCount :: "issue \<Rightarrow> int" where
  "voteCount i = int (length (upvotes (votes i))) - int (length (downvotes (votes i)))"

record userVote =
  upvoted :: bool
  downvoted :: bool

definition hasUserVoted :: "issue \<Rightarrow> objectId \<Rightarrow> userVote" where
  "hasUserVoted i userId =
     \<lparr>upvoted = list_ex (\<lambda>v. user v = userId) (upvotes (votes i)),
      downvoted = list_ex (\<lambda>v. user v = userId) (downvotes (votes i))\<rparr>"

definition removeUpvote :: "objectId \<Rightarrow> issue \<Rightarrow> issue" where
  "removeUpvote userId i =
     i\<lparr>votes := (votes i)\<lparr>upvotes := filter (\<lambda>v. user v \<noteq> userId) (upvotes (votes i))\<rparr>\<rparr>"

definition removeDownvote :: "objectId \<Rightarrow> issue \<Rightarrow> issue" where
  "removeDownvote userId i =
     i\<lparr>votes := (votes i)\<lparr>downvotes := filter (\<lambda>v. user v \<noteq> userId) (downvotes (votes i))\<rparr>\<rparr>"

definition pushUpvote :: "objectId \<Rightarrow> time \<Rightarrow> issue \<Rightarrow> issue" where
  "pushUpvote userId now i =
     i\<lparr>votes := (votes i)\<lparr>upvotes := upvotes (votes i) @ [\<lparr>user = userId, votedAt = now\<rparr>]\<rparr>\<rparr>"

definition pushDownvote :: "objectId \<Rightarrow> time \<Rightarrow> issue \<Rightarrow> issue" where
  "pushDownvote userId now i =
     i\<lparr>votes := (votes i)\<lparr>downvotes := downvotes (votes i) @ [\<lparr>user = userId, votedAt = now\<rparr>]\<rparr>\<rparr>"

text \<open>
  \<open>applyVote\<close> is the body of \<open>addVote\<close> before \<open>this.save()\<close>: the change of the
  document in memory. \<open>now\<close> is the value of \<open>new Date()\<close>, which is also the default
  \<open>votedAt\<close> of a pushed vote. \<open>voteType\<close> is the string the method receives. Every
  stored vote has its \<open>user\<close>, as \<open>addVote\<close>, the only writer of the lists, sets it.
\<close>

definition applyVote :: "issue \<Rightarrow> objectId \<Rightarrow> string \<Rightarrow> time \<Rightarrow> issue" where
  "applyVote i userId voteType now =
     (let hv = hasUserVoted i userId;
          i' = (if voteType = ''upvote'' then
                  (if upvoted hv then removeUpvote userId i
                   else pushUpvote userId now (if downvoted hv then removeDownvote userId i else i))
                else if voteType = ''downvote'' then
                  (if downvoted hv then removeDownvote userId i
                   else pushDownvote userId now (if upvoted hv then removeUpvote userId i else i))
                else i)
      in i'\<lparr>lastActivity := now\<rparr>)"

definition addVote :: "store \<Rightarrow> issue \<Rightarrow> objectId \<Rightarrow> string \<Rightarrow> time \<Rightarrow> issue \<times> (error + store)" where
  "addVote s i userId voteType now = (let i' = applyVote i userId voteType now in (i', save s i'))"

text \<open>A sequence of votes on one document: who votes, with which type, and when.\<close>

fun applyVotes :: "issue \<Rightarrow> (objectId \<times> string \<times> time) list \<Rightarrow> issue" where
  "applyVotes i [] = i"
| "applyVotes i ((u, vt, t) # vs) = applyVotes (applyVote i u vt t) vs"

definition upvoters :: "issue \<Rightarrow> objectId set" where
  "upvoters i = user ` set (upvotes (votes i))"

definition downvoters :: "issue \<Rightarrow> objectId set" where
  "downvoters i = user ` set (downvotes (votes i))"

text \<open>
  The document \<open>new Issue({...})\<close> of POST /api/issues (routes/issues.js), with the
  defaults of the schema: no votes, no comments, status Open, public, not assigned.
\<close>

definition newIssue ::
  "objectId \<Rightarrow> string \<Rightarrow> string \<Rightarrow> category \<Rightarrow> priority \<Rightarrow> location \<Rightarrow> string list \<Rightarrow> bool
     \<Rightarrow> objectId \<Rightarrow> time \<Rightarrow> issue" where
  "newIssue k ttl descr cat prio loc tgs anon rep now =
     \<lparr>issue_id = k, title = ttl, description = descr, category = cat, priority = prio,
      status = Open, reporter = rep, assignedTo = None, location = loc,
      votes = \<lparr>upvotes = [], downvotes = []\<rparr>, comments = [], tags = tgs,
      actualResolutionDate = None, resolutionNotes = None, isPublic = True,
      isAnonymous = anon, viewCount = 0, lastActivity = now, createdAt = now\<rparr>"

text \<open>A stored document with other voters on it, for the concrete checks below.\<close>

definition sampleIssue :: issue where
  "sampleIssue =
     (newIssue ''64b000000000000000000001'' ''Pothole on Main Street''
        ''Deep pothole near the crossing'' RoadsTransportation Medium
        \<lparr>address = ''1 Main Street'', coordinates = \<lparr>lat = 40, lng = -75\<rparr>\<rparr>
        [''pothole''] False ''u9'' 1000)
     \<lparr>votes := \<lparr>upvotes = [\<lparr>user = ''u1'', votedAt = 1100\<rparr>],
                downvotes = [\<lparr>user = ''u2'', votedAt = 1200\<rparr>]\<rparr>\<rparr>"

definition sampleStore :: store where
  "sampleStore = \<lparr>readyState = 1, faulty = False, docs = [sampleIssue]\<rparr>"

text \<open>
  The two conditions the data model puts on the vote lists: no user is in both lists, and
  no user is twice in one list.
\<close>

definition vote_inv :: "issue \<Rightarrow> bool" where
  "vote_inv i = (upvoters i \<inter> downvoters i = {})"

definition votes_distinct :: "issue \<Rightarrow> bool" where
  "votes_distinct i =
     (distinct (map user (upvotes (votes i))) \<and> distinct (map user (downvotes (votes i))))"

section \<open>Responses and the catch branches of the handlers\<close>

record pagination =
  currentPage :: int
  totalPages :: int
  totalItems :: nat
  itemsPerPage :: int

record overview =
  totalIssues :: nat
  openIssues :: nat
  inProgressIssues :: nat
  resolvedIssues :: nat
  avgResolutionTime :: "real option"

text \<open>
  The JSON bodies of the handlers modelled here. \<open>avgResolutionTime\<close> is \<open>None\<close> where
  the JSON holds \<open>null\<close>. A body of validation errors is not detailed.
\<close>

datatype payload =
    IssueList "issue list" pagination
  | Stats overview "(category \<times> nat) list"
  | IssueBody string issue
  | VoteRecorded string int userVote
  | Message string
  | ValidationErrors

record response =
  code :: nat
  payload :: payload

text \<open>
  The endpoints of routes/issues.js, routes/admin.js and the users routes. Each handler
  is one \<open>try\<close> block; \<open>catchBranch\<close> is what its \<open>catch\<close> block sends.
\<close>

datatype endpoint =
    GetIssues | GetIssue | PostIssue | PutIssue | DeleteIssue | PostVote | PostComment
  | GetStatsOverview
  | AdminDashboard | AdminIssues | AdminIssueStatus | AdminIssuePriority | AdminUsers
  | AdminUserRole | AdminDeleteUser
  | UserProfile | UserIssues | UserVotedIssues | UserPreferences | UserDeleteAccount

definition zeroOverview :: overview where
  "zeroOverview =
     \<lparr>totalIssues = 0, openIssues = 0, inProgressIssues = 0, resolvedIssues = 0,
      avgResolutionTime = Some 0\<rparr>"

definition serverError :: "string \<Rightarrow> response" where
  "serverError m = \<lparr>code = 500, payload = Message m\<rparr>"

fun catchBranch :: "endpoint \<Rightarrow> response" where
  "catchBranch GetIssues = serverError ''Server error while fetching issues''"
| "catchBranch GetIssue = serverError ''Server error while fetching issue''"
| "catchBranch PostIssue = serverError ''Server error while creating issue''"
| "catchBranch PutIssue = serverError ''Server error while updating issue''"
| "catchBranch DeleteIssue = serverError ''Server error while deleting issue''"
| "catchBranch PostVote = serverError ''Server error while voting''"
| "catchBranch PostComment = serverError ''Server error while adding comment''"
| "catchBranch GetStatsOverview = \<lparr>code = 200, payload = Stats zeroOverview []\<rparr>"
| "catchBranch AdminDashboard = serverError ''Server error while fetching dashboard data''"
| "catchBranch AdminIssues = serverError ''Server error while fetching issues''"
| "catchBranch AdminIssueStatus = serverError ''Server error while updating issue status''"
| "catchBranch AdminIssuePriority = serverError ''Server error while updating issue priority''"
| "catchBranch AdminUsers = serverError ''Server error while fetching users''"
| "catchBranch AdminUserRole = serverError ''Server error while updating user role''"
| "catchBranch AdminDeleteUser = serverError ''Server error while deleting user''"
| "catchBranch UserProfile = serverError ''Server error while fetching profile''"
| "catchBranch UserIssues = serverError ''Server error while fetching user issues''"
| "catchBranch UserVotedIssues = serverError ''Server error while fetching voted issues''"
| "catchBranch UserPreferences = serverError ''Server error while updating preferences''"
| "catchBranch UserDeleteAccount = serverError ''Server error while deleting account''"

definition notFound :: response where
  "notFound = \<lparr>code = 404, payload = Message ''Issue not found''\<rparr>"

definition badRequest :: response where
  "badRequest = \<lparr>code = 400, payload = ValidationErrors\<rparr>"

section \<open>POST /api/issues/:id/vote (routes/issues.js)\<close>

definition postVote :: "store \<Rightarrow> objectId \<Rightarrow> objectId \<Rightarrow> string \<Rightarrow> time \<Rightarrow> store \<times> response" where
  "postVote s k userId voteType now =
     (if voteType \<noteq> ''upvote'' \<and> voteType \<noteq> ''downvote'' then (s, badRequest)
      else case findById s k of
             Inl e \<Rightarrow> (s, catchBranch PostVote)
           | Inr None \<Rightarrow> (s, notFound)
           | Inr (Some i) \<Rightarrow>
               (case addVote s i userId voteType now of
                  (i', Inl e) \<Rightarrow> (s, catchBranch PostVote)
                | (i', Inr s') \<Rightarrow>
                    (s', \<lparr>code = 200,
                          payload = VoteRecorded ''Vote recorded successfully'' (voteCount i')
                                      (hasUserVoted i' userId)\<rparr>)))"

section \<open>GET /api/issues (routes/issues.js)\<close>

datatype sortField = SortCreatedAt | SortVoteCount | SortPriority | SortLastActivity

datatype sortOrder = Asc | Desc

text \<open>
  The query string after express-validator: \<open>None\<close> is a parameter that is absent.
  \<open>q_page\<close> and \<open>q_limit\<close> are the integers the strings denote (\<open>isInt\<close> is checked
  by \<open>validQuery\<close>); an enum parameter outside its list fails \<open>isIn\<close> and is not a
  value of the type. \<open>q_lat\<close> and \<open>q_lng\<close> are what \<open>parseFloat\<close> returns;
  \<open>None\<close> there is an absent or empty parameter, which is falsy. \<open>q_radius\<close> is the
  number the division coerces the string to, and \<open>None\<close> only when the parameter is
  absent: the default 10 replaces nothing else, and an empty \<open>radius\<close> is the number 0.
  A parameter whose number is \<open>NaN\<close> is not a value of these types.
\<close>

record listQuery =
  q_page :: "int option"
  q_limit :: "int option"
  q_category :: "category option"
  q_status :: "status option"
  q_priority :: "priority option"
  q_search :: "string option"
  q_sortBy :: "sortField option"
  q_sortOrder :: "sortOrder option"
  q_lat :: "real option"
  q_lng :: "real option"
  q_radius :: "real option"

definition validQuery :: "listQuery \<Rightarrow> bool" where
  "validQuery q =
     ((case q_page q of None \<Rightarrow> True | Some p \<Rightarrow> 1 \<le> p)
      \<and> (case q_limit q of None \<Rightarrow> True | Some l \<Rightarrow> 1 \<le> l \<and> l \<le> 50))"

definition pageOf :: "listQuery \<Rightarrow> int" where
  "pageOf q = (case q_page q of None \<Rightarrow> 1 | Some p \<Rightarrow> p)"

definition limitOf :: "listQuery \<Rightarrow> int" where
  "limitOf q = (case q_limit q of None \<Rightarrow> 10 | Some l \<Rightarrow> l)"

text \<open>
  The regular expression engine is a parameter: \<open>regex pat\<close> is \<open>None\<close> when
  \<open>new RegExp(pat, 'i')\<close> throws, and otherwise the test whether a text matches. A search
  parameter that is absent or empty adds no condition.
\<close>

type_synonym regexEngine = "string \<Rightarrow> (string \<Rightarrow> bool) option"

definition searchCondition ::
  "regexEngine \<Rightarrow> listQuery \<Rightarrow> (issue \<Rightarrow> bool) option" where
  "searchCondition regex q =
     (case q_search q of
        None \<Rightarrow> Some (\<lambda>i. True)
      | Some pat \<Rightarrow>
          if pat = [] then Some (\<lambda>i. True)
          else (case regex pat of
                  None \<Rightarrow> None
                | Some m \<Rightarrow> Some (\<lambda>i. m (title i) \<or> m (description i) \<or> list_ex m (tags i))))"

text \<open>The object \<open>filter\<close>: public issues, the chosen enum values, the search.\<close>

definition matchesFilter :: "listQuery \<Rightarrow> (issue \<Rightarrow> bool) \<Rightarrow> issue \<Rightarrow> bool" where
  "matchesFilter q srch i =
     (isPublic i
      \<and> (case q_category q of None \<Rightarrow> True | Some c \<Rightarrow> category i = c)
      \<and> (case q_status q of None \<Rightarrow> True | Some st \<Rightarrow> status i = st)
      \<and> (case q_priority q of None \<Rightarrow> True | Some p \<Rightarrow> priority i = p)
      \<and> srch i)"

text \<open>
  The conditions \<open>query.where\<close> adds to the query when \<open>lat\<close> and \<open>lng\<close> are given.
  The doubles are not modelled, so the cosine of the code is a parameter: \<open>cosDeg userLat\<close>
  is the double that \<open>Math.cos(userLat * Math.PI / 180)\<close> evaluates to. It is close to the
  real cosine and is never 0: at a centre of latitude 90 or -90 it is
  6.123233995736766e-17, and the half width of the longitudes is huge. Were the divisor 0,
  the division of JavaScript would give \<open>Infinity\<close> for a positive radius, a bound every
  longitude meets, and \<open>NaN\<close> or \<open>-Infinity\<close> otherwise, bounds no longitude meets.
\<close>

type_synonym cosine = "real \<Rightarrow> real"

definition geoBox :: "cosine \<Rightarrow> real \<Rightarrow> real \<Rightarrow> real \<Rightarrow> issue \<Rightarrow> bool" where
  "geoBox cosDeg userLat userLng maxDistance i =
     (userLat - maxDistance / 111 \<le> lat (coordinates (location i))
      \<and> lat (coordinates (location i)) \<le> userLat + maxDistance / 111
      \<and> (if cosDeg userLat = 0 then 0 < maxDistance
          else userLng - maxDistance / (111 * cosDeg userLat) \<le> lng (coordinates (location i))
             \<and> lng (coordinates (location i)) \<le> userLng + maxDistance / (111 * cosDeg userLat)))"

definition radiusOf :: "listQuery \<Rightarrow> real" where
  "radiusOf q = (case q_radius q of None \<Rightarrow> 10 | Some r \<Rightarrow> r)"

definition geoCondition :: "cosine \<Rightarrow> listQuery \<Rightarrow> issue \<Rightarrow> bool" where
  "geoCondition cosDeg q i =
     (case q_lat q of
        None \<Rightarrow> True
      | Some userLat \<Rightarrow>
          (case q_lng q of
             None \<Rightarrow> True
           | Some userLng \<Rightarrow> geoBox cosDeg userLat userLng (radiusOf q) i))"

text \<open>
  Sorting compares the stored field. \<open>priority\<close> is stored as its string, so its order is
  the order of the strings 'Critical', 'High', 'Low', 'Medium'. \<open>voteCount\<close> is a virtual
  and no stored document has it, so every document has the same key. Documents with equal
  keys stay in the order of the collection.
\<close>

fun priorityRank :: "priority \<Rightarrow> int" where
  "priorityRank Critical = 0"
| "priorityRank High = 1"
| "priorityRank Low = 2"
| "priorityRank Medium = 3"

fun sortKey :: "sortField \<Rightarrow> issue \<Rightarrow> int" where
  "sortKey SortCreatedAt i = createdAt i"
| "sortKey SortVoteCount i = 0"
| "sortKey SortPriority i = priorityRank (priority i)"
| "sortKey SortLastActivity i = lastActivity i"

definition sortByOf :: "listQuery \<Rightarrow> sortField" where
  "sortByOf q = (case q_sortBy q of None \<Rightarrow> SortCreatedAt | Some f \<Rightarrow> f)"

definition sortOrderOf :: "listQuery \<Rightarrow> sortOrder" where
  "sortOrderOf q = (case q_sortOrder q of None \<Rightarrow> Desc | Some ord \<Rightarrow> ord)"

fun direction :: "sortOrder \<Rightarrow> int" where
  "direction Asc = 1"
| "direction Desc = - 1"

definition sortIssues :: "listQuery \<Rightarrow> issue list \<Rightarrow> issue list" where
  "sortIssues q xs = sort_key (\<lambda>i. direction (sortOrderOf q) * sortKey (sortByOf q) i) xs"

text \<open>
  \<open>queryExec\<close> is \<open>query.exec()\<close>: the documents that meet the filter and the conditions
  of \<open>where\<close>, sorted (\<open>matchingIssues\<close>), then \<open>skip\<close> and \<open>limit\<close>.
  \<open>countDocuments\<close> receives the object \<open>filter\<close> alone.
\<close>

definition skipOf :: "listQuery \<Rightarrow> nat" where
  "skipOf q = nat ((pageOf q - 1) * limitOf q)"

definition matchingIssues ::
  "cosine \<Rightarrow> listQuery \<Rightarrow> (issue \<Rightarrow> bool) \<Rightarrow> issue list \<Rightarrow> issue list" where
  "matchingIssues cosDeg q srch ds =
     sortIssues q (filter (\<lambda>i. matchesFilter q srch i \<and> geoCondition cosDeg q i) ds)"

definition queryExec ::
  "cosine \<Rightarrow> listQuery \<Rightarrow> (issue \<Rightarrow> bool) \<Rightarrow> issue list \<Rightarrow> issue list" where
  "queryExec cosDeg q srch ds =
     take (nat (limitOf q)) (drop (skipOf q) (matchingIssues cosDeg q srch ds))"

definition countDocuments :: "listQuery \<Rightarrow> (issue \<Rightarrow> bool) \<Rightarrow> issue list \<Rightarrow> nat" where
  "countDocuments q srch ds = length (filter (matchesFilter q srch) ds)"

definition getIssues :: "regexEngine \<Rightarrow> cosine \<Rightarrow> store \<Rightarrow> listQuery \<Rightarrow> response" where
  "getIssues regex cosDeg s q =
     (if \<not> validQuery q then badRequest
      else case searchCondition regex q of
             None \<Rightarrow> catchBranch GetIssues
           | Some srch \<Rightarrow>
               if \<not> available s then catchBranch GetIssues
               else
                 (let issues = queryExec cosDeg q srch (docs s);
                      total = countDocuments q srch (docs s)
                  in \<lparr>code = 200,
                      payload = IssueList issues
                        \<lparr>currentPage = pageOf q,
                         totalPages = \<lceil>real total / real_of_int (limitOf q)\<rceil>,
                         totalItems = total,
                         itemsPerPage = limitOf q\<rparr>\<rparr>))"

section \<open>GET /api/issues/stats/overview (routes/issues.js)\<close>

text \<open>
  The expression under \<open>$avg\<close>: the difference of the two dates in milliseconds, divided
  by the milliseconds of a day. For a document with no resolution date the expression
  is \<open>null\<close>: by its else branch when the field is \<open>null\<close>, and by \<open>$subtract\<close> of a
  missing operand when the field is absent.
\<close>

definition resolutionDays :: "issue \<Rightarrow> real option" where
  "resolutionDays i =
     (case actualResolutionDate i of
        None \<Rightarrow> None
      | Some d \<Rightarrow> Some (real_of_int (d - createdAt i) / (1000 * 60 * 60 * 24)))"

text \<open>The accumulator \<open>$avg\<close> skips what is not a number and is \<open>null\<close> when nothing is left.\<close>

definition avg :: "real option list \<Rightarrow> real option" where
  "avg vs =
     (let xs = List.map_filter (\<lambda>v. v) vs
      in if xs = [] then None else Some (sum_list xs / real (length xs)))"

definition countStatus :: "status \<Rightarrow> issue list \<Rightarrow> nat" where
  "countStatus st ds = length (filter (\<lambda>i. status i = st) ds)"

text \<open>\<open>$group\<close> with \<open>_id: null\<close>: one group for a collection with documents, none otherwise.\<close>

definition groupAll :: "issue list \<Rightarrow> overview option" where
  "groupAll ds =
     (if ds = [] then None
      else Some \<lparr>totalIssues = length ds,
                 openIssues = countStatus Open ds,
                 inProgressIssues = countStatus InProgress ds,
                 resolvedIssues = countStatus Resolved ds,
                 avgResolutionTime = avg (map resolutionDays ds)\<rparr>)"

text \<open>
  \<open>$group\<close> by category and \<open>$sort\<close> by descending count; groups of equal count are
  taken in the order of the schema's enum.
\<close>

definition allCategories :: "category list" where
  "allCategories =
     [RoadsTransportation, PublicSafety, Environment, Utilities, ParksRecreation,
      Housing, Education, Healthcare, Other]"

definition categoryStats :: "issue list \<Rightarrow> (category \<times> nat) list" where
  "categoryStats ds =
     sort_key (\<lambda>g. - int (snd g))
       (filter (\<lambda>g. 0 < snd g)
          (map (\<lambda>c. (c, length (filter (\<lambda>i. category i = c) ds))) allCategories))"

definition getStatsOverview :: "store \<Rightarrow> response" where
  "getStatsOverview s =
     (if readyState s \<noteq> 1 then \<lparr>code = 200, payload = Stats zeroOverview []\<rparr>
      else if faulty s then catchBranch GetStatsOverview
      else \<lparr>code = 200,
            payload = Stats (case groupAll (docs s) of None \<Rightarrow> zeroOverview | Some ov \<Rightarrow> ov)
                        (categoryStats (docs s))\<rparr>)"

section \<open>PUT /api/admin/issues/:id/status (routes/admin.js)\<close>

text \<open>
  The body after validation. \<open>b_assignedTo\<close> and \<open>b_resolutionNotes\<close> are \<open>None\<close> when
  absent; an empty string is falsy as well.
\<close>

record statusBody =
  b_status :: status
  b_assignedTo :: "objectId option"
  b_resolutionNotes :: "string option"

text \<open>
  The object \<open>updateData\<close>: \<open>status\<close> and \<open>lastActivity\<close> are always there, each other
  key only when the handler has put it. Both calls of \<open>new Date()\<close> in one request are
  taken to read the same time \<open>now\<close>.
\<close>

record updateData =
  u_status :: status
  u_lastActivity :: time
  u_assignedTo :: "objectId option"
  u_actualResolutionDate :: "time option"
  u_resolutionNotes :: "string option"

definition truthy :: "string option \<Rightarrow> bool" where
  "truthy v = (case v of None \<Rightarrow> False | Some x \<Rightarrow> x \<noteq> [])"

definition statusUpdateData :: "statusBody \<Rightarrow> time \<Rightarrow> updateData" where
  "statusUpdateData b now =
     (let resolving = (b_status b = Resolved \<or> b_status b = Closed)
      in \<lparr>u_status = b_status b,
          u_lastActivity = now,
          u_assignedTo = (if truthy (b_assignedTo b) then b_assignedTo b else None),
          u_actualResolutionDate = (if resolving then Some now else None),
          u_resolutionNotes =
            (if resolving \<and> truthy (b_resolutionNotes b) then b_resolutionNotes b else None)\<rparr>)"

text \<open>A key of the update replaces the field of the document; a key not there leaves it.\<close>

definition applyUpdate :: "updateData \<Rightarrow> issue \<Rightarrow> issue" where
  "applyUpdate u i =
     i\<lparr>status := u_status u,
       lastActivity := u_lastActivity u,
       assignedTo := (case u_assignedTo u of None \<Rightarrow> assignedTo i | Some a \<Rightarrow> Some a),
       actualResolutionDate :=
         (case u_actualResolutionDate u of None \<Rightarrow> actualResolutionDate i | Some d \<Rightarrow> Some d),
       resolutionNotes :=
         (case u_resolutionNotes u of None \<Rightarrow> resolutionNotes i | Some n \<Rightarrow> Some n)\<rparr>"

definition findByIdAndUpdate ::
  "store \<Rightarrow> objectId \<Rightarrow> updateData \<Rightarrow> error + (store \<times> issue option)" where
  "findByIdAndUpdate s k u =
     (if \<not> available s then Inl StoreError
      else case find (\<lambda>d. issue_id d = k) (docs s) of
             None \<Rightarrow> Inr (s, None)
           | Some d \<Rightarrow> Inr (s\<lparr>docs := replaceDoc (applyUpdate u d) (docs s)\<rparr>, Some (applyUpdate u d)))"

definition putIssueStatus :: "store \<Rightarrow> objectId \<Rightarrow> statusBody \<Rightarrow> time \<Rightarrow> store \<times> response" where
  "putIssueStatus s k b now =
     (case findByIdAndUpdate s k (statusUpdateData b now) of
        Inl e \<Rightarrow> (s, catchBranch AdminIssueStatus)
      | Inr (s', None) \<Rightarrow> (s', notFound)
      | Inr (s', Some i) \<Rightarrow>
          (s', \<lparr>code = 200, payload = IssueBody ''Issue status updated successfully'' i\<rparr>))"

text \<open>A run of status updates of one issue, each with the time of its request.\<close>

fun putIssueStatuses :: "store \<Rightarrow> objectId \<Rightarrow> (statusBody \<times> time) list \<Rightarrow> store" where
  "putIssueStatuses s k [] = s"
| "putIssueStatuses s k ((b, t) # us) = putIssueStatuses (fst (putIssueStatus s k b t)) k us"

text \<open>The time of the last update of a run that sets 'Resolved' or 'Closed', if there is one.\<close>

fun lastResolving :: "(statusBody \<times> time) list \<Rightarrow> time option" where
  "lastResolving [] = None"
| "lastResolving ((b, t) # us) =
     (case lastResolving us of
        Some t' \<Rightarrow> Some t'
      | None \<Rightarrow> if b_status b = Resolved \<or> b_status b = Closed then Some t else None)"

definition findDoc :: "store \<Rightarrow> objectId \<Rightarrow> issue option" where
  "findDoc s k = find (\<lambda>d. issue_id d = k) (docs s)"

section \<open>Data for the concrete checks\<close>

text \<open>
  A stand-in for the regular expression engine: every pattern compiles, and matches the
  texts that contain it literally.
\<close>

fun containsText :: "string \<Rightarrow> string \<Rightarrow> bool" where
  "containsText pat [] = (pat = [])"
| "containsText pat (c # cs) = (take (length pat) (c # cs) = pat \<or> containsText pat cs)"

definition literalRegex :: regexEngine where
  "literalRegex pat = Some (containsText pat)"

text \<open>
  A stand-in for the cosine of the code: its doubles at the latitudes 40, 90 and -90 (the
  first to 15 digits), its exact value 1 at latitude 0, and the real cosine elsewhere.
\<close>

definition tableCos :: cosine where
  "tableCos d =
     (if d = 40 then 766044443118978 / 10 ^ 15
      else if d = 90 \<or> d = - 90 then 6123233995736766 / 10 ^ 32
      else cos (d * pi / 180))"

definition issueAt :: "objectId \<Rightarrow> real \<Rightarrow> real \<Rightarrow> time \<Rightarrow> issue" where
  "issueAt k la lo t =
     newIssue k ''Pothole on Main Street'' ''Deep pothole near the crossing''
       RoadsTransportation Medium
       \<lparr>address = ''Main Street'', coordinates = \<lparr>lat = la, lng = lo\<rparr>\<rparr> [''pothole''] False ''u9'' t"

definition nearIssue :: issue where
  "nearIssue = issueAt ''64b0000000000000000000a1'' 40 (-75) 1000"

definition farIssue :: issue where
  "farIssue = issueAt ''64b0000000000000000000a2'' 41 (-75) 2000"

definition hiddenIssue :: issue where
  "hiddenIssue = (issueAt ''64b0000000000000000000a3'' 40 (-75) 3000)\<lparr>isPublic := False\<rparr>"

definition geoStore :: store where
  "geoStore = \<lparr>readyState = 1, faulty = False, docs = [nearIssue, farIssue, hiddenIssue]\<rparr>"

definition poleIssue :: issue where
  "poleIssue = issueAt ''64b0000000000000000000a4'' 90 50 4000"


definition plainQuery :: listQuery where
  "plainQuery =
     \<lparr>q_page = None, q_limit = None, q_category = None, q_status = None, q_priority = None,
      q_search = None, q_sortBy = None, q_sortOrder = None, q_lat = None, q_lng = None,
      q_radius = None\<rparr>"

definition geoQuery :: listQuery where
  "geoQuery = plainQuery\<lparr>q_limit := Some 1, q_lat := Some 40, q_lng := Some (-75), q_radius := Some 10\<rparr>"



definition emptyRadiusQuery :: listQuery where
  "emptyRadiusQuery = plainQuery\<lparr>q_lat := Some 40, q_lng := Some (-75), q_radius := Some 0\<rparr>"

text \<open>
  Three issues created at time 0: one resolved after two days, one closed after four days,
  one still open.
\<close>

definition resolvedIssue :: "objectId \<Rightarrow> status \<Rightarrow> time \<Rightarrow> issue" where
  "resolvedIssue k st t = (issueAt k 40 (-75) 0)\<lparr>status := st, actualResolutionDate := Some t\<rparr>"

definition statsStore :: store where
  "statsStore =
     \<lparr>readyState = 1, faulty = False,
      docs = [resolvedIssue ''64b0000000000000000000b1'' Resolved 172800000,
              issueAt ''64b0000000000000000000b2'' 40 (-75) 0,
              resolvedIssue ''64b0000000000000000000b3'' Closed 345600000]\<rparr>"

definition downStore :: store where
  "downStore = \<lparr>readyState = 0, faulty = False, docs = []\<rparr>"

definition openId :: objectId where
  "openId = ''64b0000000000000000000b2''"

definition statusOnly :: "status \<Rightarrow> statusBody" where
  "statusOnly st = \<lparr>b_status = st, b_assignedTo = None, b_resolutionNotes = None\<rparr>"

section \<open>Properties of voting\<close>

lemma upvoted_iff: "upvoted (hasUserVoted i u) = (u \<in> upvoters i)"
  by (auto simp: hasUserVoted_def upvoters_def list_ex_iff)

lemma downvoted_iff: "downvoted (hasUserVoted i u) = (u \<in> downvoters i)"
  by (auto simp: hasUserVoted_def downvoters_def list_ex_iff)

lemma upvoters_removeUpvote: "upvoters (removeUpvote u i) = upvoters i - {u}"
  by (auto simp: upvoters_def removeUpvote_def)

lemma downvoters_removeUpvote: "downvoters (removeUpvote u i) = downvoters i"
  by (simp add: downvoters_def removeUpvote_def)

lemma upvoters_removeDownvote: "upvoters (removeDownvote u i) = upvoters i"
  by (simp add: upvoters_def removeDownvote_def)

lemma downvoters_removeDownvote: "downvoters (removeDownvote u i) = downvoters i - {u}"
  by (auto simp: downvoters_def removeDownvote_def)

lemma upvoters_pushUpvote: "upvoters (pushUpvote u t i) = insert u (upvoters i)"
  by (simp add: upvoters_def pushUpvote_def)

lemma downvoters_pushUpvote: "downvoters (pushUpvote u t i) = downvoters i"
  by (simp add: downvoters_def pushUpvote_def)

lemma upvoters_pushDownvote: "upvoters (pushDownvote u t i) = upvoters i"
  by (simp add: upvoters_def pushDownvote_def)

lemma downvoters_pushDownvote: "downvoters (pushDownvote u t i) = insert u (downvoters i)"
  by (simp add: downvoters_def pushDownvote_def)

lemma upvoters_lastActivity: "upvoters (i\<lparr>lastActivity := t\<rparr>) = upvoters i"
  by (simp add: upvoters_def)

lemma downvoters_lastActivity: "downvoters (i\<lparr>lastActivity := t\<rparr>) = downvoters i"
  by (simp add: downvoters_def)

lemmas voters_simps =
  upvoters_removeUpvote downvoters_removeUpvote upvoters_removeDownvote
  downvoters_removeDownvote upvoters_pushUpvote downvoters_pushUpvote
  upvoters_pushDownvote downvoters_pushDownvote upvoters_lastActivity
  downvoters_lastActivity

text \<open>What one vote does to the two sets of voters, case by case.\<close>

lemma upvoters_applyVote:
  "upvoters (applyVote i u vt t) =
     (if vt = ''upvote'' then (if u \<in> upvoters i then upvoters i - {u} else insert u (upvoters i))
      else if vt = ''downvote'' then (if u \<in> downvoters i then upvoters i else upvoters i - {u})
      else upvoters i)"
  by (auto simp: applyVote_def Let_def upvoted_iff downvoted_iff voters_simps)

lemma downvoters_applyVote:
  "downvoters (applyVote i u vt t) =
     (if vt = ''upvote'' then (if u \<in> upvoters i then downvoters i else downvoters i - {u})
      else if vt = ''downvote'' then
        (if u \<in> downvoters i then downvoters i - {u} else insert u (downvoters i))
      else downvoters i)"
  by (auto simp: applyVote_def Let_def upvoted_iff downvoted_iff voters_simps)

text \<open>
  C1. A user who is in neither set of voters and casts the vote 'upvote' twice is again in
  neither set: the first vote puts the user among the upvoters and the second takes that
  back. The document \<open>addVote\<close> leaves in memory is the one \<open>applyVote\<close> computes,
  whatever the store does.
\<close>

theorem upvote_twice_toggles_off:
  assumes "u \<notin> upvoters i" and "u \<notin> downvoters i"
  shows "u \<notin> upvoters (applyVote (applyVote i u ''upvote'' t1) u ''upvote'' t2)
       \<and> u \<notin> downvoters (applyVote (applyVote i u ''upvote'' t1) u ''upvote'' t2)
       \<and> u \<in> upvoters (applyVote i u ''upvote'' t1)
       \<and> fst (addVote s' (fst (addVote s i u ''upvote'' t1)) u ''upvote'' t2)
           = applyVote (applyVote i u ''upvote'' t1) u ''upvote'' t2"
  using assms by (simp add: upvoters_applyVote downvoters_applyVote addVote_def Let_def)

theorem upvote_twice_toggles_off_witness:
  "''u3'' \<notin> upvoters sampleIssue \<and> ''u3'' \<notin> downvoters sampleIssue
   \<and> ''u3'' \<notin> upvoters (applyVote (applyVote sampleIssue ''u3'' ''upvote'' 2000) ''u3'' ''upvote'' 3000)
   \<and> ''u3'' \<notin> downvoters (applyVote (applyVote sampleIssue ''u3'' ''upvote'' 2000) ''u3'' ''upvote'' 3000)"
proof -
  have a: "''u3'' \<notin> upvoters sampleIssue"
    by (simp add: upvoters_def sampleIssue_def newIssue_def)
  have b: "''u3'' \<notin> downvoters sampleIssue"
    by (simp add: downvoters_def sampleIssue_def newIssue_def)
  from upvote_twice_toggles_off [OF a b, of 2000 3000] a b show ?thesis by simp
qed

lemma vote_inv_applyVote: "vote_inv i \<Longrightarrow> vote_inv (applyVote i u vt t)"
  by (auto simp: vote_inv_def upvoters_applyVote downvoters_applyVote)

lemma vote_inv_applyVotes: "vote_inv i \<Longrightarrow> vote_inv (applyVotes i vs)"
  by (induction i vs rule: applyVotes.induct) (simp_all add: vote_inv_applyVote)

lemma upvoters_newIssue: "upvoters (newIssue k ttl d c p l tg an r n) = {}"
  by (simp add: upvoters_def newIssue_def)

lemma downvoters_newIssue: "downvoters (newIssue k ttl d c p l tg an r n) = {}"
  by (simp add: downvoters_def newIssue_def)

lemma vote_inv_newIssue: "vote_inv (newIssue k ttl d c p l tg an r n)"
  by (simp add: vote_inv_def upvoters_newIssue)

text \<open>
  C2. On an issue where no user is in both sets of voters, a user who casts 'upvote' and then
  'downvote' ends in the set of downvoters and not in the set of upvoters; every vote, by any
  user and of any type, keeps the two sets disjoint, and so does every sequence of votes,
  in particular every sequence that starts from a newly created issue.
\<close>

theorem upvote_then_downvote_and_invariant:
  assumes "vote_inv i"
  shows "u \<in> downvoters (applyVote (applyVote i u ''upvote'' t1) u ''downvote'' t2)
       \<and> u \<notin> upvoters (applyVote (applyVote i u ''upvote'' t1) u ''downvote'' t2)
       \<and> vote_inv (applyVote i v vt t)
       \<and> vote_inv (applyVotes i vs)
       \<and> vote_inv (applyVotes (newIssue k ttl d c p l tg an r n) vs)"
proof -
  from assms have "u \<notin> upvoters i \<or> u \<notin> downvoters i"
    by (auto simp: vote_inv_def)
  then have "u \<in> downvoters (applyVote (applyVote i u ''upvote'' t1) u ''downvote'' t2)"
    and "u \<notin> upvoters (applyVote (applyVote i u ''upvote'' t1) u ''downvote'' t2)"
    by (auto simp: upvoters_applyVote downvoters_applyVote)
  with assms show ?thesis
    by (simp add: vote_inv_applyVote vote_inv_applyVotes vote_inv_newIssue)
qed

lemma vote_inv_sampleIssue: "vote_inv sampleIssue"
  by (simp add: vote_inv_def upvoters_def downvoters_def sampleIssue_def newIssue_def)

theorem upvote_then_downvote_and_invariant_witness:
  "vote_inv sampleIssue
   \<and> ''u1'' \<in> downvoters (applyVote (applyVote sampleIssue ''u1'' ''upvote'' 2000) ''u1'' ''downvote'' 3000)
   \<and> ''u1'' \<notin> upvoters (applyVote (applyVote sampleIssue ''u1'' ''upvote'' 2000) ''u1'' ''downvote'' 3000)
   \<and> vote_inv (applyVote sampleIssue ''u2'' ''upvote'' 4000)
   \<and> vote_inv (applyVotes sampleIssue [(''u2'', ''upvote'', 4000), (''u1'', ''downvote'', 5000)])"
  using upvote_then_downvote_and_invariant [OF vote_inv_sampleIssue,
      of "''u1''" 2000 3000 "''u2''" "''upvote''" 4000
         "[(''u2'', ''upvote'', 4000), (''u1'', ''downvote'', 5000)]"]
    vote_inv_sampleIssue
  by simp

text \<open>
  Outside the data model, on a document that already lists the user in both sets, the same
  two votes leave the user in neither set.
\<close>

lemma upvote_then_downvote_from_both:
  assumes "u \<in> upvoters i" and "u \<in> downvoters i"
  shows "u \<notin> downvoters (applyVote (applyVote i u ''upvote'' t1) u ''downvote'' t2)
       \<and> u \<notin> upvoters (applyVote (applyVote i u ''upvote'' t1) u ''downvote'' t2)"
  using assms by (simp add: upvoters_applyVote downvoters_applyVote)

lemma votes_distinct_applyVote: "votes_distinct i \<Longrightarrow> votes_distinct (applyVote i u vt t)"
  by (auto simp: votes_distinct_def applyVote_def Let_def hasUserVoted_def list_ex_iff
      removeUpvote_def removeDownvote_def pushUpvote_def pushDownvote_def distinct_map_filter)

lemma votes_distinct_applyVotes: "votes_distinct i \<Longrightarrow> votes_distinct (applyVotes i vs)"
  by (induction i vs rule: applyVotes.induct) (simp_all add: votes_distinct_applyVote)

lemma votes_distinct_newIssue: "votes_distinct (newIssue k ttl d c p l tg an r n)"
  by (simp add: votes_distinct_def newIssue_def)

lemma voteCount_card:
  assumes "votes_distinct i"
  shows "voteCount i = int (card (upvoters i)) - int (card (downvoters i))"
proof -
  have "card (upvoters i) = length (upvotes (votes i))"
    using assms distinct_card [of "map user (upvotes (votes i))"]
    by (simp add: votes_distinct_def upvoters_def)
  moreover have "card (downvoters i) = length (downvotes (votes i))"
    using assms distinct_card [of "map user (downvotes (votes i))"]
    by (simp add: votes_distinct_def downvoters_def)
  ultimately show ?thesis by (simp add: voteCount_def)
qed

lemma scenario_votes:
  assumes "distinct [a, b, c]"
  shows "voteCount (applyVotes (newIssue k ttl d RoadsTransportation p l tg an r n)
            [(a, ''upvote'', t1), (b, ''upvote'', t2), (c, ''downvote'', t3)]) = 1"
  using assms
  by (simp add: voteCount_def applyVote_def Let_def hasUserVoted_def newIssue_def
      pushUpvote_def pushDownvote_def removeUpvote_def removeDownvote_def)

lemma votes_distinct_sampleIssue: "votes_distinct sampleIssue"
  by (simp add: votes_distinct_def sampleIssue_def newIssue_def)

text \<open>
  C3. \<open>voteCount\<close> is no field of the document but computed from the two lists, and after
  every sequence of votes it is the number of upvoters minus the number of downvoters: on
  every issue whose lists name no user twice, so on every issue that votes have changed
  since its creation. A new issue with upvotes of users a and b and a downvote of user c,
  three different users, has \<open>voteCount\<close> 1.
\<close>

theorem voteCount_is_difference:
  "(votes_distinct i \<longrightarrow>
      voteCount (applyVotes i vs) =
        int (card (upvoters (applyVotes i vs))) - int (card (downvoters (applyVotes i vs))))
   \<and> voteCount (applyVotes (newIssue k ttl d c p l tg an r n) vs) =
        int (card (upvoters (applyVotes (newIssue k ttl d c p l tg an r n) vs)))
        - int (card (downvoters (applyVotes (newIssue k ttl d c p l tg an r n) vs)))
   \<and> (distinct [ua, ub, uc] \<longrightarrow>
        voteCount (applyVotes (newIssue k ttl d RoadsTransportation p l tg an r n)
          [(ua, ''upvote'', t1), (ub, ''upvote'', t2), (uc, ''downvote'', t3)]) = 1)"
  using voteCount_card [OF votes_distinct_applyVotes, of i vs]
    voteCount_card [OF votes_distinct_applyVotes [OF votes_distinct_newIssue], of k ttl d c p l tg an r n vs]
    scenario_votes [of ua ub uc k ttl d p l tg an r n t1 t2 t3]
  by blast

theorem voteCount_is_difference_witness:
  "votes_distinct sampleIssue
   \<and> voteCount (applyVotes sampleIssue [(''u1'', ''upvote'', 2000), (''u3'', ''downvote'', 2100)]) =
       int (card (upvoters (applyVotes sampleIssue [(''u1'', ''upvote'', 2000), (''u3'', ''downvote'', 2100)])))
       - int (card (downvoters (applyVotes sampleIssue [(''u1'', ''upvote'', 2000), (''u3'', ''downvote'', 2100)])))
   \<and> distinct [''A'', ''B'', ''C'']
   \<and> voteCount (applyVotes
         (newIssue ''64b000000000000000000002'' ''Broken light'' ''Street light is out''
            RoadsTransportation Medium
            \<lparr>address = ''2 Main Street'', coordinates = \<lparr>lat = 40, lng = -75\<rparr>\<rparr> [] False ''u9'' 1000)
         [(''A'', ''upvote'', 2000), (''B'', ''upvote'', 3000), (''C'', ''downvote'', 4000)]) = 1"
proof -
  have d: "distinct [''A'', ''B'', ''C'']" by simp
  from voteCount_is_difference [where i = sampleIssue
      and vs = "[(''u1'', ''upvote'', 2000), (''u3'', ''downvote'', 2100)]"
      and ua = "''A''" and ub = "''B''" and uc = "''C''"
      and k = "''64b000000000000000000002''" and ttl = "''Broken light''"
      and d = "''Street light is out''" and p = Medium
      and l = "\<lparr>address = ''2 Main Street'', coordinates = \<lparr>lat = 40, lng = -75\<rparr>\<rparr>"
      and tg = "[]" and an = False and r = "''u9''" and n = 1000
      and ?t1.0 = 2000 and ?t2.0 = 3000 and ?t3.0 = 4000]
    votes_distinct_sampleIssue d
  show ?thesis by blast
qed

lemma find_replaceDoc: "find (\<lambda>d. issue_id d = issue_id i) (replaceDoc i ds) = Some i"
  by (induction ds) simp_all

lemma applyVote_other:
  assumes "voteType \<noteq> ''upvote''" and "voteType \<noteq> ''downvote''"
  shows "applyVote i u voteType now = i\<lparr>lastActivity := now\<rparr>"
  using assms by (simp add: applyVote_def)

text \<open>
  C10. \<open>addVote\<close> with a vote type that is neither 'upvote' nor 'downvote' changes neither
  list of votes and raises nothing of its own: the document it leaves is the old one with
  \<open>lastActivity\<close> set to the current time, and on an available store that document is
  saved, so that a lookup of its id returns it.
\<close>

theorem addVote_other_voteType:
  assumes "voteType \<noteq> ''upvote''" and "voteType \<noteq> ''downvote''"
  shows "fst (addVote s i u voteType now) = i\<lparr>lastActivity := now\<rparr>
       \<and> upvotes (votes (fst (addVote s i u voteType now))) = upvotes (votes i)
       \<and> downvotes (votes (fst (addVote s i u voteType now))) = downvotes (votes i)
       \<and> lastActivity (fst (addVote s i u voteType now)) = now
       \<and> (available s \<longrightarrow>
            snd (addVote s i u voteType now)
              = Inr (s\<lparr>docs := replaceDoc (i\<lparr>lastActivity := now\<rparr>) (docs s)\<rparr>)
            \<and> findDoc (s\<lparr>docs := replaceDoc (i\<lparr>lastActivity := now\<rparr>) (docs s)\<rparr>) (issue_id i)
              = Some (i\<lparr>lastActivity := now\<rparr>))"
proof -
  have "find (\<lambda>d. issue_id d = issue_id i) (replaceDoc (i\<lparr>lastActivity := now\<rparr>) (docs s))
      = Some (i\<lparr>lastActivity := now\<rparr>)"
    using find_replaceDoc [of "i\<lparr>lastActivity := now\<rparr>" "docs s"] by simp
  then show ?thesis
    using assms by (simp add: addVote_def Let_def applyVote_other save_def findDoc_def)
qed

theorem addVote_other_voteType_witness:
  "''abstain'' \<noteq> ''upvote'' \<and> ''abstain'' \<noteq> ''downvote'' \<and> available sampleStore
   \<and> upvotes (votes (fst (addVote sampleStore sampleIssue ''u3'' ''abstain'' 9000)))
       = [\<lparr>user = ''u1'', votedAt = 1100\<rparr>]
   \<and> downvotes (votes (fst (addVote sampleStore sampleIssue ''u3'' ''abstain'' 9000)))
       = [\<lparr>user = ''u2'', votedAt = 1200\<rparr>]
   \<and> lastActivity (fst (addVote sampleStore sampleIssue ''u3'' ''abstain'' 9000)) = 9000
   \<and> snd (addVote sampleStore sampleIssue ''u3'' ''abstain'' 9000)
       = Inr (sampleStore\<lparr>docs := [sampleIssue\<lparr>lastActivity := 9000\<rparr>]\<rparr>)"
proof -
  have a: "''abstain'' \<noteq> ''upvote''" and b: "''abstain'' \<noteq> ''downvote''" by simp_all
  have c: "available sampleStore" by (simp add: available_def sampleStore_def)
  have v: "votes sampleIssue = \<lparr>upvotes = [\<lparr>user = ''u1'', votedAt = 1100\<rparr>],
                                downvotes = [\<lparr>user = ''u2'', votedAt = 1200\<rparr>]\<rparr>"
    by (simp add: sampleIssue_def)
  have r: "replaceDoc (sampleIssue\<lparr>lastActivity := 9000\<rparr>) (docs sampleStore)
           = [sampleIssue\<lparr>lastActivity := 9000\<rparr>]"
    by (simp add: sampleStore_def)
  from addVote_other_voteType [OF a b, of sampleStore sampleIssue "''u3''" 9000] a b c v r
  show ?thesis by simp
qed

section \<open>Properties of the public listing\<close>

lemma tableCos_values:
  "tableCos 40 = 766044443118978 / 10 ^ 15" "tableCos 90 = 6123233995736766 / 10 ^ 32"
  "tableCos 0 = 1"
  by (simp_all add: tableCos_def)

lemma geoBox_near: "geoBox tableCos 40 (-75) 10 nearIssue"
  by (simp add: geoBox_def tableCos_values nearIssue_def issueAt_def newIssue_def)

lemma geoBox_far: "\<not> geoBox tableCos 40 (-75) 10 farIssue"
  by (simp add: geoBox_def farIssue_def issueAt_def newIssue_def)

lemma isPublic_samples: "isPublic nearIssue" "isPublic farIssue" "\<not> isPublic hiddenIssue"
  by (simp_all add: nearIssue_def farIssue_def hiddenIssue_def issueAt_def newIssue_def)

lemma geoCondition_samples:
  "geoCondition tableCos geoQuery nearIssue" "\<not> geoCondition tableCos geoQuery farIssue"
  using geoBox_near geoBox_far
  by (simp_all add: geoCondition_def geoQuery_def plainQuery_def radiusOf_def)

lemma matchesFilter_samples:
  "matchesFilter geoQuery (\<lambda>i. True) nearIssue" "matchesFilter geoQuery (\<lambda>i. True) farIssue"
  "\<not> matchesFilter geoQuery (\<lambda>i. True) hiddenIssue"
  using isPublic_samples by (simp_all add: matchesFilter_def geoQuery_def plainQuery_def)

lemma params_geoQuery:
  "validQuery geoQuery" "pageOf geoQuery = 1" "limitOf geoQuery = 1" "skipOf geoQuery = 0"
  "searchCondition regex geoQuery = Some (\<lambda>i. True)"
  by (simp_all add: validQuery_def pageOf_def limitOf_def skipOf_def searchCondition_def
      geoQuery_def plainQuery_def)

lemma matchesFilter_page: "matchesFilter (q\<lparr>q_page := p\<rparr>) srch i = matchesFilter q srch i"
  by (simp add: matchesFilter_def)

lemma geoCondition_page: "geoCondition cosDeg (q\<lparr>q_page := p\<rparr>) i = geoCondition cosDeg q i"
  by (simp add: geoCondition_def radiusOf_def split: option.splits)

lemma sortIssues_page: "sortIssues (q\<lparr>q_page := p\<rparr>) xs = sortIssues q xs"
  by (simp add: sortIssues_def sortByOf_def sortOrderOf_def)

lemma matchingIssues_page: "matchingIssues cosDeg (q\<lparr>q_page := p\<rparr>) srch ds = matchingIssues cosDeg q srch ds"
  by (simp add: matchingIssues_def matchesFilter_page geoCondition_page sortIssues_page)

lemma countDocuments_page: "countDocuments (q\<lparr>q_page := p\<rparr>) srch ds = countDocuments q srch ds"
proof -
  have "matchesFilter (q\<lparr>q_page := p\<rparr>) srch = matchesFilter q srch"
    by (rule ext) (rule matchesFilter_page)
  then show ?thesis by (simp add: countDocuments_def)
qed

lemma limitOf_page: "limitOf (q\<lparr>q_page := p\<rparr>) = limitOf q"
  by (simp add: limitOf_def)

lemma searchCondition_page: "searchCondition regex (q\<lparr>q_page := p\<rparr>) = searchCondition regex q"
  by (simp add: searchCondition_def)

lemma pageOf_page: "pageOf (q\<lparr>q_page := Some n\<rparr>) = n"
  by (simp add: pageOf_def)

lemma validQuery_page: "validQuery q \<Longrightarrow> 1 \<le> n \<Longrightarrow> validQuery (q\<lparr>q_page := Some n\<rparr>)"
  by (simp add: validQuery_def)

lemmas page_independent =
  matchingIssues_page countDocuments_page limitOf_page searchCondition_page pageOf_page

lemma geoStore_matching:
  "filter (\<lambda>i. matchesFilter geoQuery (\<lambda>i. True) i \<and> geoCondition tableCos geoQuery i) (docs geoStore)
     = [nearIssue]"
  using matchesFilter_samples geoCondition_samples by (simp add: geoStore_def)

lemma geoStore_count: "countDocuments geoQuery (\<lambda>i. True) (docs geoStore) = 2"
  using matchesFilter_samples by (simp add: countDocuments_def geoStore_def)

lemma geoStore_available: "available geoStore"
  by (simp add: available_def geoStore_def)

lemma geoStore_matchingIssues: "matchingIssues tableCos geoQuery (\<lambda>i. True) (docs geoStore) = [nearIssue]"
  by (simp add: matchingIssues_def geoStore_matching sortIssues_def)

lemma getIssues_geoStore_page1:
  "getIssues literalRegex tableCos geoStore geoQuery =
     \<lparr>code = 200,
      payload = IssueList [nearIssue]
        \<lparr>currentPage = 1, totalPages = 2, totalItems = 2, itemsPerPage = 1\<rparr>\<rparr>"
proof -
  have "queryExec tableCos geoQuery (\<lambda>i. True) (docs geoStore) = [nearIssue]"
    by (simp add: queryExec_def geoStore_matchingIssues params_geoQuery)
  then show ?thesis
    by (simp add: getIssues_def Let_def params_geoQuery geoStore_available geoStore_count)
qed

lemma getIssues_geoStore_page2:
  "getIssues literalRegex tableCos geoStore (geoQuery\<lparr>q_page := Some 2\<rparr>) =
     \<lparr>code = 200,
      payload = IssueList []
        \<lparr>currentPage = 2, totalPages = 2, totalItems = 2, itemsPerPage = 1\<rparr>\<rparr>"
proof -
  have "queryExec tableCos (geoQuery\<lparr>q_page := Some 2\<rparr>) (\<lambda>i. True) (docs geoStore) = []"
    by (simp add: queryExec_def page_independent geoStore_matchingIssues params_geoQuery skipOf_def)
  then show ?thesis
    by (simp add: getIssues_def Let_def page_independent params_geoQuery geoStore_available
        geoStore_count validQuery_page)
qed

text \<open>
  C4, at a concrete request. The collection holds two public issues, at (40, -75) and at
  (41, -75), and one that is not public. The request gives the centre (40, -75), the radius
  10 and the limit 1. One issue meets the filter and the box, yet the response reports
  \<open>totalItems = 2\<close> and \<open>totalPages = 2\<close>, and its second page is empty: the count is
  taken from the filter without the box.
\<close>

theorem getIssues_count_ignores_geo:
  "getIssues literalRegex tableCos geoStore geoQuery =
     \<lparr>code = 200,
      payload = IssueList [nearIssue]
        \<lparr>currentPage = 1, totalPages = 2, totalItems = 2, itemsPerPage = 1\<rparr>\<rparr>
   \<and> getIssues literalRegex tableCos geoStore (geoQuery\<lparr>q_page := Some 2\<rparr>) =
     \<lparr>code = 200,
      payload = IssueList []
        \<lparr>currentPage = 2, totalPages = 2, totalItems = 2, itemsPerPage = 1\<rparr>\<rparr>
   \<and> filter (\<lambda>i. matchesFilter geoQuery (\<lambda>i. True) i \<and> geoCondition tableCos geoQuery i) (docs geoStore)
       = [nearIssue]"
  using getIssues_geoStore_page1 getIssues_geoStore_page2 geoStore_matching
  by blast

lemma set_matchingIssues:
  "set (matchingIssues cosDeg q srch ds) = {i \<in> set ds. matchesFilter q srch i \<and> geoCondition cosDeg q i}"
  by (simp add: matchingIssues_def sortIssues_def)

lemma length_matchingIssues:
  "length (matchingIssues cosDeg q srch ds)
     = length (filter (\<lambda>i. matchesFilter q srch i \<and> geoCondition cosDeg q i) ds)"
  by (simp add: matchingIssues_def sortIssues_def)

lemma set_queryExec: "set (queryExec cosDeg q srch ds) \<subseteq> set (matchingIssues cosDeg q srch ds)"
  unfolding queryExec_def
  by (meson set_take_subset set_drop_subset subset_trans)

lemma matchesFilter_public: "matchesFilter q srch i \<Longrightarrow> isPublic i"
  by (simp add: matchesFilter_def)

lemma getIssues_list:
  assumes "getIssues regex cosDeg s q = \<lparr>code = c, payload = IssueList is pg\<rparr>"
  shows "validQuery q \<and> available s
       \<and> (\<exists>srch. searchCondition regex q = Some srch
             \<and> is = queryExec cosDeg q srch (docs s)
             \<and> totalItems pg = countDocuments q srch (docs s)
             \<and> totalPages pg = \<lceil>real (countDocuments q srch (docs s)) / real_of_int (limitOf q)\<rceil>)"
  using assms
  by (auto simp: getIssues_def Let_def badRequest_def serverError_def
      split: if_splits option.splits)

lemma public_and_matches:
  "(isPublic i \<and> matchesFilter q srch i) = matchesFilter q srch i"
  "(isPublic i \<and> matchesFilter q srch i \<and> g) = (matchesFilter q srch i \<and> g)"
  by (auto dest: matchesFilter_public)

lemma filter_public_matches:
  "filter (matchesFilter q srch) (filter isPublic ds) = filter (matchesFilter q srch) ds"
  by (simp add: public_and_matches)

lemma getIssues_public_docs:
  "getIssues regex cosDeg (s\<lparr>docs := filter isPublic (docs s)\<rparr>) q = getIssues regex cosDeg s q"
  by (cases "searchCondition regex q")
    (simp_all add: getIssues_def Let_def available_def queryExec_def matchingIssues_def
      countDocuments_def public_and_matches)

lemma count_le_public: "countDocuments q srch ds \<le> length (filter isPublic ds)"
proof -
  have "length (filter (matchesFilter q srch) (filter isPublic ds)) \<le> length (filter isPublic ds)"
    by (rule length_filter_le)
  then show ?thesis
    by (simp only: countDocuments_def filter_public_matches)
qed

text \<open>
  C9. Whatever the parameters of the request, each issue that GET /api/issues returns is a
  public issue of the collection, \<open>totalItems\<close> is the number of public issues that meet
  the filter, and the whole response is the one the same request gets from the collection
  with every issue that is not public taken out.
\<close>

theorem public_listing_only_public:
  assumes "getIssues regex cosDeg s q = \<lparr>code = c, payload = IssueList is pg\<rparr>"
  shows "(\<forall>i \<in> set is. isPublic i \<and> i \<in> set (docs s))
       \<and> totalItems pg = length (filter (\<lambda>i. isPublic i \<and> matchesFilter q (the (searchCondition regex q)) i) (docs s))
       \<and> totalItems pg \<le> length (filter isPublic (docs s))
       \<and> getIssues regex cosDeg (s\<lparr>docs := filter isPublic (docs s)\<rparr>) q = getIssues regex cosDeg s q"
proof -
  from getIssues_list [OF assms] obtain srch where
    sc: "searchCondition regex q = Some srch" and
    is_def: "is = queryExec cosDeg q srch (docs s)" and
    tot: "totalItems pg = countDocuments q srch (docs s)"
    by blast
  have a: "\<forall>i \<in> set is. isPublic i \<and> i \<in> set (docs s)"
    using set_queryExec [of cosDeg q srch "docs s"] is_def
    by (auto simp: set_matchingIssues dest: matchesFilter_public)
  have "(\<lambda>i. isPublic i \<and> matchesFilter q srch i) = matchesFilter q srch"
    by (auto dest: matchesFilter_public)
  then have b: "totalItems pg = length (filter (\<lambda>i. isPublic i \<and> matchesFilter q (the (searchCondition regex q)) i) (docs s))"
    by (simp add: tot sc countDocuments_def)
  show ?thesis
    using a b count_le_public [of q srch "docs s"] tot getIssues_public_docs [of regex cosDeg s q]
    by simp
qed

lemma concat_pages:
  "concat (map (\<lambda>p. take L (drop (p * L) xs)) [0..<n]) = take (n * L) xs"
proof (induction n)
  case 0
  show ?case by simp
next
  case (Suc n)
  have "take (Suc n * L) xs = take (n * L) xs @ take L (drop (n * L) xs)"
    using take_add [of "n * L" L xs] by (simp add: add.commute)
  with Suc show ?case by simp
qed

theorem public_listing_only_public_witness:
  "getIssues literalRegex tableCos geoStore geoQuery =
     \<lparr>code = 200,
      payload = IssueList [nearIssue]
        \<lparr>currentPage = 1, totalPages = 2, totalItems = 2, itemsPerPage = 1\<rparr>\<rparr>
   \<and> isPublic nearIssue \<and> \<not> isPublic hiddenIssue \<and> hiddenIssue \<in> set (docs geoStore)
   \<and> 2 \<le> length (filter isPublic (docs geoStore))
   \<and> getIssues literalRegex tableCos (geoStore\<lparr>docs := filter isPublic (docs geoStore)\<rparr>) geoQuery
       = getIssues literalRegex tableCos geoStore geoQuery"
proof -
  have h: "hiddenIssue \<in> set (docs geoStore)" by (simp add: geoStore_def)
  from public_listing_only_public [OF getIssues_geoStore_page1] getIssues_geoStore_page1
    isPublic_samples h
  show ?thesis by simp
qed










lemma farIssue_coordinates:
  "lat (coordinates (location farIssue)) = 41" "lng (coordinates (location farIssue)) = - 75"
  by (simp_all add: farIssue_def issueAt_def newIssue_def)

lemma nearIssue_coordinates:
  "lat (coordinates (location nearIssue)) = 40" "lng (coordinates (location nearIssue)) = - 75"
  by (simp_all add: nearIssue_def issueAt_def newIssue_def)






text \<open>
  At a centre of latitude 90 the box holds every longitude, for every positive radius the
  cosine of the code leaves it so wide: an issue at (90, 50) is in the box of centre (90, 0)
  and radius 10. An empty \<open>radius\<close> is the radius 0, whose box is the centre alone.
\<close>

lemma geoBox_pole: "geoBox tableCos 90 0 10 poleIssue"
  by (simp add: geoBox_def tableCos_values poleIssue_def issueAt_def newIssue_def)

lemma empty_radius_box:
  "radiusOf emptyRadiusQuery = 0"
  "geoCondition tableCos emptyRadiusQuery nearIssue"
  "\<not> geoCondition tableCos emptyRadiusQuery farIssue"
  by (simp_all add: radiusOf_def geoCondition_def geoBox_def emptyRadiusQuery_def plainQuery_def
      tableCos_values nearIssue_coordinates farIssue_coordinates)

lemma ceiling_covers:
  assumes "0 < L"
  shows "N \<le> nat \<lceil>real N / real_of_int L\<rceil> * nat L"
proof -
  define k where "k = \<lceil>real N / real_of_int L\<rceil>"
  have pos: "0 < real_of_int L" using assms by simp
  have "real N / real_of_int L \<le> real_of_int k"
    unfolding k_def by (rule le_of_int_ceiling)
  with pos have "real N \<le> real_of_int k * real_of_int L"
    using pos_divide_le_eq [of "real_of_int L" "real N" "real_of_int k"] by blast
  then have "real_of_int (int N) \<le> real_of_int (k * L)" by simp
  then have le: "int N \<le> k * L" by (simp only: of_int_le_iff)
  have "0 \<le> real N / real_of_int L" using pos by simp
  then have k0: "0 \<le> k" unfolding k_def by (simp add: ceiling_le_iff)
  from le have "nat (int N) \<le> nat (k * L)" by (rule nat_mono)
  then show ?thesis
    using k0 by (simp add: nat_mult_distrib k_def)
qed

lemma limitOf_pos: "validQuery q \<Longrightarrow> 0 < limitOf q"
  by (auto simp: validQuery_def limitOf_def split: option.splits)

lemma queryExec_page:
  "queryExec cosDeg (q\<lparr>q_page := Some (int (Suc p))\<rparr>) srch ds
     = take (nat (limitOf q)) (drop (p * nat (limitOf q)) (matchingIssues cosDeg q srch ds))"
proof -
  have "nat (int p * limitOf q) = p * nat (limitOf q)"
    by (simp add: nat_mult_distrib)
  then show ?thesis
    by (simp add: queryExec_def skipOf_def page_independent)
qed

lemma pages_concat:
  "concat (map (\<lambda>p. queryExec cosDeg (q\<lparr>q_page := Some (int p)\<rparr>) srch ds) [1..<Suc n])
     = take (n * nat (limitOf q)) (matchingIssues cosDeg q srch ds)"
proof -
  have "[1..<Suc n] = map Suc [0..<n]"
    using map_Suc_upt [of 0 n] by simp
  then have "map (\<lambda>p. queryExec cosDeg (q\<lparr>q_page := Some (int p)\<rparr>) srch ds) [1..<Suc n]
      = map (\<lambda>p. take (nat (limitOf q)) (drop (p * nat (limitOf q)) (matchingIssues cosDeg q srch ds))) [0..<n]"
    by (simp only: map_map o_def queryExec_page)
  then show ?thesis
    by (simp only: concat_pages)
qed

lemma count_without_geo:
  assumes "q_lat q = None \<or> q_lng q = None"
  shows "countDocuments q srch ds = length (matchingIssues cosDeg q srch ds)"
proof -
  have "geoCondition cosDeg q i" for i
    using assms by (auto simp: geoCondition_def split: option.splits)
  then show ?thesis
    by (simp add: countDocuments_def length_matchingIssues)
qed

text \<open>
  Without \<open>lat\<close> and \<open>lng\<close> the count is the number of matching issues, and the pages
  1 to \<open>totalPages\<close> of a valid request, one after the other, are the sorted matching
  issues.
\<close>

lemma pages_without_geo:
  assumes "validQuery q" and "q_lat q = None \<or> q_lng q = None"
  shows "concat (map (\<lambda>p. queryExec cosDeg (q\<lparr>q_page := Some (int p)\<rparr>) srch ds)
           [1..<Suc (nat \<lceil>real (countDocuments q srch ds) / real_of_int (limitOf q)\<rceil>)])
         = matchingIssues cosDeg q srch ds"
proof -
  have "length (matchingIssues cosDeg q srch ds)
      \<le> nat \<lceil>real (countDocuments q srch ds) / real_of_int (limitOf q)\<rceil> * nat (limitOf q)"
    using ceiling_covers [OF limitOf_pos [OF assms(1)], of "countDocuments q srch ds"]
      count_without_geo [OF assms(2), of srch ds]
    by simp
  then show ?thesis
    by (simp only: pages_concat take_all)
qed

section \<open>Properties of the statistics overview\<close>

lemma map_filter_resolutionDays:
  "List.map_filter (\<lambda>v. v) (map resolutionDays ds)
     = map (\<lambda>i. real_of_int (the (actualResolutionDate i) - createdAt i) / (1000 * 60 * 60 * 24))
         (filter (\<lambda>i. actualResolutionDate i \<noteq> None) ds)"
  by (induction ds) (auto simp: resolutionDays_def split: option.splits)

lemma avg_resolutionDays:
  "avg (map resolutionDays ds) =
     (if filter (\<lambda>i. actualResolutionDate i \<noteq> None) ds = [] then None
      else Some (sum_list (map (\<lambda>i. real_of_int (the (actualResolutionDate i) - createdAt i)
                                       / (1000 * 60 * 60 * 24))
                            (filter (\<lambda>i. actualResolutionDate i \<noteq> None) ds))
                 / real (length (filter (\<lambda>i. actualResolutionDate i \<noteq> None) ds))))"
  by (simp add: avg_def Let_def map_filter_resolutionDays)

lemma avg_resolved_only:
  "avg (map resolutionDays ds)
     = avg (map resolutionDays (filter (\<lambda>i. actualResolutionDate i \<noteq> None) ds))"
  by (simp add: avg_resolutionDays)

lemma getStatsOverview_available:
  assumes "available s" and "docs s \<noteq> []"
  shows "getStatsOverview s
     = \<lparr>code = 200,
        payload = Stats \<lparr>totalIssues = length (docs s),
                         openIssues = countStatus Open (docs s),
                         inProgressIssues = countStatus InProgress (docs s),
                         resolvedIssues = countStatus Resolved (docs s),
                         avgResolutionTime = avg (map resolutionDays (docs s))\<rparr>
                    (categoryStats (docs s))\<rparr>"
  using assms by (simp add: getStatsOverview_def available_def groupAll_def)

lemma statsStore_avg: "avg (map resolutionDays (docs statsStore)) = Some 3"
  by (simp add: avg_def Let_def resolutionDays_def statsStore_def
      resolvedIssue_def issueAt_def newIssue_def)

lemma statsStore_ok: "available statsStore" "docs statsStore \<noteq> []"
  by (simp_all add: available_def statsStore_def)

lemma statsStore_counts:
  "length (docs statsStore) = 3" "countStatus Open (docs statsStore) = 1"
  "countStatus InProgress (docs statsStore) = 0" "countStatus Resolved (docs statsStore) = 1"
  by (simp_all add: countStatus_def statsStore_def resolvedIssue_def issueAt_def newIssue_def)

lemma statsStore_categories: "categoryStats (docs statsStore) = [(RoadsTransportation, 3)]"
  by (simp add: categoryStats_def allCategories_def statsStore_def resolvedIssue_def issueAt_def
      newIssue_def)

text \<open>
  C6. The average resolution time of the overview is the mean, over the issues that have a
  resolution date, of the time from creation to resolution in days; it is \<open>null\<close> when no
  issue has one, and issues without a resolution date do not change it. For issues resolved
  after 2 and after 4 days and one unresolved issue the overview reports 3.
\<close>

theorem avgResolutionTime_resolved_only:
  "avg (map resolutionDays ds) =
     (if filter (\<lambda>i. actualResolutionDate i \<noteq> None) ds = [] then None
      else Some (sum_list (map (\<lambda>i. real_of_int (the (actualResolutionDate i) - createdAt i)
                                       / (1000 * 60 * 60 * 24))
                            (filter (\<lambda>i. actualResolutionDate i \<noteq> None) ds))
                 / real (length (filter (\<lambda>i. actualResolutionDate i \<noteq> None) ds))))
   \<and> avg (map resolutionDays ds)
       = avg (map resolutionDays (filter (\<lambda>i. actualResolutionDate i \<noteq> None) ds))
   \<and> (available s \<and> docs s \<noteq> [] \<longrightarrow>
        getStatsOverview s
          = \<lparr>code = 200,
             payload = Stats \<lparr>totalIssues = length (docs s),
                              openIssues = countStatus Open (docs s),
                              inProgressIssues = countStatus InProgress (docs s),
                              resolvedIssues = countStatus Resolved (docs s),
                              avgResolutionTime = avg (map resolutionDays (docs s))\<rparr>
                         (categoryStats (docs s))\<rparr>)
   \<and> map resolutionDays (docs statsStore) = [Some 2, None, Some 4]
   \<and> avg (map resolutionDays (docs statsStore)) = Some 3"
proof -
  have "map resolutionDays (docs statsStore) = [Some 2, None, Some 4]"
    by (simp add: resolutionDays_def statsStore_def resolvedIssue_def issueAt_def newIssue_def)
  then show ?thesis
    using avg_resolutionDays [of ds] avg_resolved_only [of ds] getStatsOverview_available [of s]
      statsStore_avg
    by blast
qed

theorem avgResolutionTime_resolved_only_witness:
  "available statsStore \<and> docs statsStore \<noteq> []
   \<and> getStatsOverview statsStore
       = \<lparr>code = 200,
          payload = Stats \<lparr>totalIssues = 3, openIssues = 1, inProgressIssues = 0,
                           resolvedIssues = 1, avgResolutionTime = Some 3\<rparr>
                      [(RoadsTransportation, 3)]\<rparr>"
proof -
  from avgResolutionTime_resolved_only [of "docs statsStore" statsStore] statsStore_ok
  have g: "getStatsOverview statsStore
          = \<lparr>code = 200,
             payload = Stats \<lparr>totalIssues = length (docs statsStore),
                              openIssues = countStatus Open (docs statsStore),
                              inProgressIssues = countStatus InProgress (docs statsStore),
                              resolvedIssues = countStatus Resolved (docs statsStore),
                              avgResolutionTime = avg (map resolutionDays (docs statsStore))\<rparr>
                         (categoryStats (docs statsStore))\<rparr>"
    and a: "avg (map resolutionDays (docs statsStore)) = Some 3"
    by blast+
  show ?thesis
    using statsStore_ok by (simp add: g a statsStore_counts statsStore_categories)
qed

section \<open>Properties of the status update\<close>

lemma find_replaceDoc_other:
  "k \<noteq> issue_id i \<Longrightarrow> find (\<lambda>d. issue_id d = k) (replaceDoc i ds) = find (\<lambda>d. issue_id d = k) ds"
  by (induction ds) auto

lemma find_issue_id: "find (\<lambda>d. issue_id d = k) ds = Some d \<Longrightarrow> issue_id d = k"
  by (induction ds) (auto split: if_splits)

lemma issue_id_applyUpdate: "issue_id (applyUpdate u d) = issue_id d"
  by (simp add: applyUpdate_def)

lemma actualResolutionDate_update:
  "actualResolutionDate (applyUpdate (statusUpdateData b now) d)
     = (if b_status b = Resolved \<or> b_status b = Closed then Some now else actualResolutionDate d)"
  by (simp add: applyUpdate_def statusUpdateData_def Let_def)

lemma status_applyUpdate: "status (applyUpdate (statusUpdateData b now) d) = b_status b"
  by (simp add: applyUpdate_def statusUpdateData_def Let_def)

lemma putIssueStatus_found:
  assumes "available s" and "findDoc s k = Some d"
  shows "putIssueStatus s k b now =
           (s\<lparr>docs := replaceDoc (applyUpdate (statusUpdateData b now) d) (docs s)\<rparr>,
            \<lparr>code = 200,
             payload = IssueBody ''Issue status updated successfully''
                         (applyUpdate (statusUpdateData b now) d)\<rparr>)"
  using assms by (simp add: putIssueStatus_def findByIdAndUpdate_def findDoc_def)

lemma putIssueStatus_findDoc:
  assumes "available s" and "findDoc s k = Some d"
  shows "findDoc (fst (putIssueStatus s k b now)) k = Some (applyUpdate (statusUpdateData b now) d)"
proof -
  have "issue_id (applyUpdate (statusUpdateData b now) d) = k"
    using assms(2) find_issue_id [of k "docs s" d] by (simp add: findDoc_def issue_id_applyUpdate)
  then show ?thesis
    using find_replaceDoc [of "applyUpdate (statusUpdateData b now) d" "docs s"]
    by (simp add: putIssueStatus_found [OF assms] findDoc_def)
qed

lemma putIssueStatus_other:
  assumes "available s" and "findDoc s k = Some d" and "k' \<noteq> k"
  shows "findDoc (fst (putIssueStatus s k b now)) k' = findDoc s k'"
proof -
  have "issue_id (applyUpdate (statusUpdateData b now) d) = k"
    using assms(2) find_issue_id [of k "docs s" d] by (simp add: findDoc_def issue_id_applyUpdate)
  then show ?thesis
    using assms(3) find_replaceDoc_other [of k' "applyUpdate (statusUpdateData b now) d" "docs s"]
    by (simp add: putIssueStatus_found [OF assms(1,2)] findDoc_def)
qed

lemma putIssueStatus_available:
  "available (fst (putIssueStatus s k b now)) = available s"
  by (auto simp: putIssueStatus_def findByIdAndUpdate_def available_def findDoc_def
      split: option.splits)

lemma putIssueStatuses_date:
  assumes "available s" and "findDoc s k = Some d"
  shows "map_option actualResolutionDate (findDoc (putIssueStatuses s k us) k)
           = Some (case lastResolving us of None \<Rightarrow> actualResolutionDate d | Some t \<Rightarrow> Some t)"
  using assms
proof (induction us arbitrary: s d)
  case Nil
  then show ?case by simp
next
  case (Cons u us)
  obtain b t where u: "u = (b, t)" by (cases u)
  let ?s = "fst (putIssueStatus s k b t)"
  let ?d = "applyUpdate (statusUpdateData b t) d"
  have av: "available ?s" using Cons.prems(1) by (simp add: putIssueStatus_available)
  have fd: "findDoc ?s k = Some ?d" by (rule putIssueStatus_findDoc [OF Cons.prems])
  from Cons.IH [OF av fd] show ?case
    by (auto simp: u actualResolutionDate_update split: option.splits)
qed

lemma putIssueStatus_unavailable:
  "\<not> available s \<Longrightarrow> putIssueStatus s k b now = (s, catchBranch AdminIssueStatus)"
  by (simp add: putIssueStatus_def findByIdAndUpdate_def)

lemma putIssueStatus_missing:
  "available s \<Longrightarrow> findDoc s k = None \<Longrightarrow> putIssueStatus s k b now = (s, notFound)"
  by (simp add: putIssueStatus_def findByIdAndUpdate_def findDoc_def)


text \<open>
  C7. A status update of a stored issue to 'Resolved' or 'Closed' sets
  \<open>actualResolutionDate\<close> to the time of that request; an update to any other status
  leaves the date as it was, and no other issue is touched. So after a run of status
  updates the date is the time of the last update to 'Resolved' or 'Closed', or the old
  date when there was none: each such update has set it once.
\<close>

theorem status_update_sets_resolution_date:
  assumes "available s" and "findDoc s k = Some d"
  shows "map_option actualResolutionDate (findDoc (fst (putIssueStatus s k b now)) k)
           = Some (if b_status b = Resolved \<or> b_status b = Closed then Some now
                   else actualResolutionDate d)
       \<and> map_option status (findDoc (fst (putIssueStatus s k b now)) k) = Some (b_status b)
       \<and> (k' \<noteq> k \<longrightarrow> findDoc (fst (putIssueStatus s k b now)) k' = findDoc s k')
       \<and> map_option actualResolutionDate (findDoc (putIssueStatuses s k us) k)
           = Some (case lastResolving us of None \<Rightarrow> actualResolutionDate d | Some t \<Rightarrow> Some t)"
  using putIssueStatus_findDoc [OF assms, of b now] putIssueStatus_other [OF assms, of k' b now]
    putIssueStatuses_date [OF assms, of us]
  by (simp add: actualResolutionDate_update status_applyUpdate)

lemma statsStore_open: "findDoc statsStore openId = Some (issueAt openId 40 (- 75) 0)"
  by (simp add: findDoc_def statsStore_def openId_def resolvedIssue_def issueAt_def newIssue_def)

lemma open_unresolved: "actualResolutionDate (issueAt openId 40 (- 75) 0) = None"
  by (simp add: issueAt_def newIssue_def)

theorem status_update_sets_resolution_date_witness:
  "available statsStore \<and> findDoc statsStore openId = Some (issueAt openId 40 (- 75) 0)
   \<and> map_option actualResolutionDate
        (findDoc (fst (putIssueStatus statsStore openId (statusOnly Resolved) 500)) openId)
       = Some (Some 500)
   \<and> map_option actualResolutionDate
        (findDoc (fst (putIssueStatus statsStore openId (statusOnly InProgress) 500)) openId)
       = Some None
   \<and> map_option actualResolutionDate
        (findDoc (putIssueStatuses statsStore openId
           [(statusOnly InProgress, 100), (statusOnly Resolved, 200), (statusOnly Open, 300)]) openId)
       = Some (Some 200)"
  using status_update_sets_resolution_date [OF statsStore_ok(1) statsStore_open,
      of "statusOnly Resolved" 500 openId
         "[(statusOnly InProgress, 100), (statusOnly Resolved, 200), (statusOnly Open, 300)]"]
    status_update_sets_resolution_date [OF statsStore_ok(1) statsStore_open,
      of "statusOnly InProgress" 500 openId "[]"]
    statsStore_ok(1) statsStore_open
  by (simp add: statusOnly_def open_unresolved)

section \<open>Failure of the store\<close>

lemma getStatsOverview_unavailable:
  "\<not> available s \<Longrightarrow> getStatsOverview s = \<lparr>code = 200, payload = Stats zeroOverview []\<rparr>"
  by (auto simp: getStatsOverview_def available_def)

lemma catchBranch_code: "(code (catchBranch e) = 500) = (e \<noteq> GetStatsOverview)"
  by (cases e) (simp_all add: serverError_def)

lemma getIssues_unavailable:
  "\<not> available s \<Longrightarrow> validQuery q \<Longrightarrow> getIssues regex cosDeg s q = catchBranch GetIssues"
  by (simp add: getIssues_def split: option.splits)

lemma postVote_unavailable:
  "\<not> available s \<Longrightarrow> voteType = ''upvote'' \<or> voteType = ''downvote''
     \<Longrightarrow> postVote s k u voteType now = (s, catchBranch PostVote)"
  by (auto simp: postVote_def findById_def)

text \<open>
  C8. When the store is not connected, or the aggregation fails, the statistics overview
  answers with status 200, an overview of zeros and no category statistics. It is the only
  endpoint whose \<open>catch\<close> block does not send status 500 with a message: the listing,
  the status update and the vote, for instance, answer 500 and change nothing.
\<close>

theorem stats_overview_degrades:
  "(\<not> available s \<longrightarrow>
      getStatsOverview s
        = \<lparr>code = 200,
           payload = Stats \<lparr>totalIssues = 0, openIssues = 0, inProgressIssues = 0,
                            resolvedIssues = 0, avgResolutionTime = Some 0\<rparr> []\<rparr>)
   \<and> catchBranch GetStatsOverview
        = \<lparr>code = 200,
           payload = Stats \<lparr>totalIssues = 0, openIssues = 0, inProgressIssues = 0,
                            resolvedIssues = 0, avgResolutionTime = Some 0\<rparr> []\<rparr>
   \<and> (code (catchBranch e) = 500) = (e \<noteq> GetStatsOverview)
   \<and> (e \<noteq> GetStatsOverview \<longrightarrow> (\<exists>m. catchBranch e = \<lparr>code = 500, payload = Message m\<rparr>))
   \<and> (\<not> available s \<and> validQuery q \<longrightarrow> getIssues regex cosDeg s q = catchBranch GetIssues)
   \<and> (\<not> available s \<longrightarrow> putIssueStatus s k b now = (s, catchBranch AdminIssueStatus))
   \<and> (\<not> available s \<and> (voteType = ''upvote'' \<or> voteType = ''downvote'') \<longrightarrow>
        postVote s k u voteType now = (s, catchBranch PostVote))"
proof -
  have m: "e \<noteq> GetStatsOverview \<longrightarrow> (\<exists>m. catchBranch e = \<lparr>code = 500, payload = Message m\<rparr>)"
    by (cases e) (simp_all add: serverError_def)
  have z: "catchBranch GetStatsOverview
        = \<lparr>code = 200,
           payload = Stats \<lparr>totalIssues = 0, openIssues = 0, inProgressIssues = 0,
                            resolvedIssues = 0, avgResolutionTime = Some 0\<rparr> []\<rparr>"
    by (simp add: zeroOverview_def)
  show ?thesis
    using getStatsOverview_unavailable [of s] catchBranch_code [of e] m z
      getIssues_unavailable [of s q regex cosDeg] putIssueStatus_unavailable [of s k b now]
      postVote_unavailable [of s voteType k u now]
    by (simp add: zeroOverview_def)
qed

lemma downStore_unavailable: "\<not> available downStore"
  by (simp add: available_def downStore_def)

lemma validQuery_plainQuery: "validQuery plainQuery"
  by (simp add: validQuery_def plainQuery_def)

theorem stats_overview_degrades_witness:
  "\<not> available downStore \<and> validQuery plainQuery \<and> PostComment \<noteq> GetStatsOverview
   \<and> getStatsOverview downStore
       = \<lparr>code = 200,
          payload = Stats \<lparr>totalIssues = 0, openIssues = 0, inProgressIssues = 0,
                           resolvedIssues = 0, avgResolutionTime = Some 0\<rparr> []\<rparr>
   \<and> code (catchBranch PostComment) = 500
   \<and> getIssues literalRegex tableCos downStore plainQuery
       = \<lparr>code = 500, payload = Message ''Server error while fetching issues''\<rparr>
   \<and> putIssueStatus downStore openId (statusOnly Resolved) 500
       = (downStore, \<lparr>code = 500, payload = Message ''Server error while updating issue status''\<rparr>)
   \<and> postVote downStore openId ''u1'' ''upvote'' 500
       = (downStore, \<lparr>code = 500, payload = Message ''Server error while voting''\<rparr>)"
  using stats_overview_degrades [where s = downStore and e = PostComment and q = plainQuery
      and regex = literalRegex and cosDeg = tableCos and k = openId
      and b = "statusOnly Resolved" and now = 500 and voteType = "''upvote''" and u = "''u1''"]
    downStore_unavailable validQuery_plainQuery
  by (simp add: serverError_def)

end
